theory Spec2Isabelle
  imports Complex_Main
begin

section \<open>Python floats\<close>

text \<open>
  A Python float is an IEEE 754 binary64 value: a finite double, given by the rational it
  denotes, an infinity, or NaN. The two zeros are one value; they are equal in Python,
  both false as a condition, and no operation used here tells them apart.
\<close>

datatype pyfloat = Finite rat | PosInf | NegInf | NaN

definition pow2 :: "int \<Rightarrow> rat" where
  "pow2 e = (if 0 \<le> e then 2 ^ nat e else 1 / 2 ^ nat (- e))"

text \<open>The number of binary digits of a positive integer.\<close>

function bit_length :: "int \<Rightarrow> int" where
  "bit_length a = (if a \<le> 0 then 0 else 1 + bit_length (a div 2))"
  by pat_completeness auto
termination
  by (relation "measure nat") auto

declare bit_length.simps [simp del]

text \<open>For \<open>x > 0\<close>, the exponent \<open>e\<close> with \<open>pow2 e \<le> x < pow2 (e + 1)\<close>.\<close>

definition binary_exponent :: "rat \<Rightarrow> int" where
  "binary_exponent x =
     (let (a, b) = quotient_of x;
          e = bit_length a - bit_length b
      in if pow2 e \<le> x then e else e - 1)"

definition round_half_even :: "rat \<Rightarrow> int" where
  "round_half_even x =
     (let f = \<lfloor>x\<rfloor>; d = x - of_int f
      in if d < 1 / 2 then f else if 1 / 2 < d then f + 1 else if even f then f else f + 1)"

text \<open>
  Rounding of an exact result to the nearest double, ties to even: the magnitude \<open>m\<close> with
  binary exponent \<open>e\<close> is rounded to a multiple \<open>n\<close> of the spacing \<open>2\<close> to the \<open>e - 52\<close>
  (53 significant bits), where the exponent is at least \<open>-1022\<close> (below it the spacing
  stays \<open>2\<close> to the \<open>-1074\<close>). The result is an infinity when the rounded magnitude
  reaches \<open>2\<close> to the \<open>1024\<close>: the exponent is 1024 or more, or it is 1023 and the
  multiple is rounded up to \<open>2\<close> to the \<open>53\<close>.
\<close>

definition round_to_double :: "rat \<Rightarrow> pyfloat" where
  "round_to_double x =
     (if x = 0 then Finite 0
      else
        let m = \<bar>x\<bar>;
            e = max (binary_exponent m) (- 1022);
            ulp = pow2 (e - 52);
            n = round_half_even (m / ulp);
            r = of_int n * ulp
        in if 1024 \<le> e \<or> (e = 1023 \<and> n = 2 ^ 53) then (if 0 < x then PosInf else NegInf)
           else Finite (if 0 < x then r else - r))"

text \<open>Float addition and multiplication: the exact result, rounded.\<close>

fun float_add :: "pyfloat \<Rightarrow> pyfloat \<Rightarrow> pyfloat" where
  "float_add NaN y = NaN"
| "float_add x NaN = NaN"
| "float_add PosInf NegInf = NaN"
| "float_add NegInf PosInf = NaN"
| "float_add PosInf y = PosInf"
| "float_add x PosInf = PosInf"
| "float_add NegInf y = NegInf"
| "float_add x NegInf = NegInf"
| "float_add (Finite a) (Finite b) = round_to_double (a + b)"

fun float_mul :: "pyfloat \<Rightarrow> pyfloat \<Rightarrow> pyfloat" where
  "float_mul NaN y = NaN"
| "float_mul x NaN = NaN"
| "float_mul (Finite a) (Finite b) = round_to_double (a * b)"
| "float_mul (Finite a) PosInf = (if a = 0 then NaN else if 0 < a then PosInf else NegInf)"
| "float_mul (Finite a) NegInf = (if a = 0 then NaN else if 0 < a then NegInf else PosInf)"
| "float_mul PosInf (Finite b) = (if b = 0 then NaN else if 0 < b then PosInf else NegInf)"
| "float_mul NegInf (Finite b) = (if b = 0 then NaN else if 0 < b then NegInf else PosInf)"
| "float_mul PosInf PosInf = PosInf"
| "float_mul PosInf NegInf = NegInf"
| "float_mul NegInf PosInf = NegInf"
| "float_mul NegInf NegInf = PosInf"

text \<open>The comparisons \<^verbatim>\<open><\<close> and \<^verbatim>\<open><=\<close>; every comparison with NaN is false.\<close>

fun float_less :: "pyfloat \<Rightarrow> pyfloat \<Rightarrow> bool" where
  "float_less NaN y = False"
| "float_less x NaN = False"
| "float_less (Finite a) (Finite b) = (a < b)"
| "float_less x NegInf = False"
| "float_less PosInf y = False"
| "float_less NegInf y = True"
| "float_less x PosInf = True"

fun float_less_eq :: "pyfloat \<Rightarrow> pyfloat \<Rightarrow> bool" where
  "float_less_eq NaN y = False"
| "float_less_eq x NaN = False"
| "float_less_eq (Finite a) (Finite b) = (a \<le> b)"
| "float_less_eq NegInf y = True"
| "float_less_eq x PosInf = True"
| "float_less_eq x NegInf = False"
| "float_less_eq PosInf y = False"

text \<open>
  The order of the storage engine on a double precision column: as above on the other
  values, with NaN equal to itself and greater than every other value.
\<close>

fun storage_less_eq :: "pyfloat \<Rightarrow> pyfloat \<Rightarrow> bool" where
  "storage_less_eq x NaN = True"
| "storage_less_eq NaN y = False"
| "storage_less_eq x y = float_less_eq x y"

text \<open>
  The operators \<open>0\<close>, \<open>+\<close>, \<open>*\<close>, \<open><\<close> and \<open>\<le>\<close> on floats are Python's operations; no
  algebraic law of them is assumed.
\<close>

instantiation pyfloat :: "{zero, plus, times, ord}"
begin

definition zero_pyfloat :: pyfloat where
  "zero_pyfloat = Finite 0"

definition plus_pyfloat :: "pyfloat \<Rightarrow> pyfloat \<Rightarrow> pyfloat" where
  "plus_pyfloat x y = float_add x y"

definition times_pyfloat :: "pyfloat \<Rightarrow> pyfloat \<Rightarrow> pyfloat" where
  "times_pyfloat x y = float_mul x y"

definition less_pyfloat :: "pyfloat \<Rightarrow> pyfloat \<Rightarrow> bool" where
  "less_pyfloat x y = float_less x y"

definition less_eq_pyfloat :: "pyfloat \<Rightarrow> pyfloat \<Rightarrow> bool" where
  "less_eq_pyfloat x y = float_less_eq x y"

instance ..

end

text \<open>
  The conversion of an integer operand of a float operation. Python raises
  \<^verbatim>\<open>OverflowError\<close> where this gives an infinity, for integers of a magnitude of
  about \<open>2\<close> to the \<open>1024\<close> and more; the only integer converted in the modelled code is a quantity
  that has passed the stock check, so it is at most a stock level, the value of an
  \<^verbatim>\<open>INTEGER\<close> column, and its conversion is exact.
\<close>

definition float_of_int :: "int \<Rightarrow> pyfloat" where
  "float_of_int i = round_to_double (of_int i)"

text \<open>The float that a decimal literal such as \<^verbatim>\<open>9.99\<close> denotes.\<close>

definition dbl :: "rat \<Rightarrow> pyfloat" where
  "dbl x = round_to_double x"

section \<open>Data model\<close>

text \<open>
  The tables of \<^verbatim>\<open>app/models\<close>. Python integers are \<open>int\<close>, prices are Python floats.
  A \<^verbatim>\<open>datetime\<close> of a table column is a point on an integer time line, without UTC offset,
  and a \<^verbatim>\<open>date\<close> is its ordinal day number; only their order is used. Several tables have
  columns of the same name, so the fields of a record carry a prefix: \<open>u_\<close> for users,
  \<open>p_\<close> for products, \<open>inv_\<close> for invoices, \<open>it_\<close> for invoice items, \<open>ic_\<close> for the lines
  of a request.
\<close>

type_synonym price = pyfloat
type_synonym datetime = int
type_synonym date = int

datatype UserRole = USER | ADMIN

text \<open>\<^verbatim>\<open>models/user.py\<close>; the columns no modelled function reads are left out.\<close>

record User =
  u_id :: int
  u_username :: string
  u_role :: UserRole

text \<open>\<^verbatim>\<open>models/product.py\<close>\<close>

record Product =
  p_id :: int
  p_user_id :: int
  p_name :: string
  p_barcode :: string
  p_category :: "string option"
  p_quantity :: int
  p_price :: price
  p_threshold :: int
  p_description :: "string option"
  p_created_at :: datetime

text \<open>\<^verbatim>\<open>models/invoice.py\<close>\<close>

record Invoice =
  inv_id :: int
  inv_user_id :: int
  inv_customer_name :: "string option"
  inv_total_price :: price
  inv_created_at :: datetime

text \<open>\<^verbatim>\<open>models/invoice_item.py\<close>\<close>

record InvoiceItem =
  it_id :: int
  it_invoice_id :: int
  it_product_id :: int
  it_quantity :: int
  it_unit_price :: price

text \<open>
  \<^verbatim>\<open>schemas/invoice_item.py\<close>, \<^verbatim>\<open>schemas/invoice.py\<close>. \<open>ic_unit_price = None\<close> stands for
  an item object without a \<^verbatim>\<open>unit_price\<close> attribute or with the value \<^verbatim>\<open>None\<close>, the
  two cases that \<^verbatim>\<open>create_invoice\<close> guards against.
\<close>

record InvoiceItemCreate =
  ic_product_id :: int
  ic_quantity :: int
  ic_unit_price :: "price option"

record InvoiceCreate =
  customer_name :: "string option"
  items :: "InvoiceItemCreate list"

section \<open>Exceptions\<close>

text \<open>
  \<^verbatim>\<open>fastapi.HTTPException(status_code, detail)\<close>, and the \<^verbatim>\<open>TypeError\<close> that
  \<^verbatim>\<open>datetime.fromisoformat\<close> raises on an argument that is not a string.
\<close>

datatype exn = HTTPException (status_code: nat) (detail: string) | TypeError

subsection \<open>String formatting used by the messages\<close>

definition digit_char :: "nat \<Rightarrow> char" where
  "digit_char d = ''0123456789'' ! d"

fun str_nat :: "nat \<Rightarrow> string" where
  "str_nat n = (if n < 10 then [digit_char n] else str_nat (n div 10) @ [digit_char (n mod 10)])"

declare str_nat.simps [simp del]

text \<open>\<^verbatim>\<open>str(i)\<close> of a Python integer, as an f-string inserts it.\<close>

definition str_int :: "int \<Rightarrow> string" where
  "str_int i = (if i < 0 then ''-'' @ str_nat (nat (- i)) else str_nat (nat i))"

definition upper_char :: "char \<Rightarrow> char" where
  "upper_char c =
     (case map_of (zip ''abcdefghijklmnopqrstuvwxyz'' ''ABCDEFGHIJKLMNOPQRSTUVWXYZ'') c of
        Some u \<Rightarrow> u | None \<Rightarrow> c)"

definition lower_char :: "char \<Rightarrow> char" where
  "lower_char c =
     (case map_of (zip ''ABCDEFGHIJKLMNOPQRSTUVWXYZ'' ''abcdefghijklmnopqrstuvwxyz'') c of
        Some l \<Rightarrow> l | None \<Rightarrow> c)"

text \<open>\<^verbatim>\<open>str.capitalize()\<close> on ASCII text: first character upper case, the rest lower case.\<close>

definition capitalize :: "string \<Rightarrow> string" where
  "capitalize s = (case s of [] \<Rightarrow> [] | c # cs \<Rightarrow> upper_char c # map lower_char cs)"

section \<open>Authorization utilities (\<^verbatim>\<open>utils/auth_utils.py\<close>)\<close>

definition check_ownership_or_admin :: "User \<Rightarrow> int \<Rightarrow> string \<Rightarrow> exn + unit" where
  "check_ownership_or_admin current_user resource_user_id resource_name =
     (if u_role current_user \<noteq> ADMIN \<and> u_id current_user \<noteq> resource_user_id
      then Inl (HTTPException 403 (''Not authorized to access this '' @ resource_name))
      else Inr ())"

definition check_admin_access :: "User \<Rightarrow> string \<Rightarrow> exn + unit" where
  "check_admin_access current_user action =
     (if u_role current_user \<noteq> ADMIN
      then Inl (HTTPException 403 (''Admin access required to '' @ action))
      else Inr ())"

text \<open>
  The resource is any object; \<open>user_id_field\<close> is \<^verbatim>\<open>getattr(resource, user_id_field, None)\<close>,
  which is \<open>None\<close> when the attribute is missing or holds \<^verbatim>\<open>None\<close>.
\<close>

definition check_resource_ownership ::
  "User \<Rightarrow> 'r option \<Rightarrow> string \<Rightarrow> ('r \<Rightarrow> int option) \<Rightarrow> exn + 'r" where
  "check_resource_ownership current_user resource resource_name user_id_field =
     (case resource of
        None \<Rightarrow> Inl (HTTPException 404 (capitalize resource_name @ '' not found''))
      | Some r \<Rightarrow>
          (case user_id_field r of
             None \<Rightarrow> Inl (HTTPException 500 ''Resource ownership validation failed'')
           | Some resource_user_id \<Rightarrow>
               (case check_ownership_or_admin current_user resource_user_id resource_name of
                  Inl e \<Rightarrow> Inl e
                | Inr _ \<Rightarrow> Inr r)))"

definition is_admin :: "User \<Rightarrow> bool" where
  "is_admin user = (u_role user = ADMIN)"

definition is_owner_or_admin :: "User \<Rightarrow> int \<Rightarrow> bool" where
  "is_owner_or_admin user resource_user_id =
     (u_role user = ADMIN \<or> u_id user = resource_user_id)"

section \<open>Storage\<close>

text \<open>
  The three tables, each a list of rows in insertion order. A session works on its own view
  of the tables: \<open>working\<close> holds the committed rows together with the changes the session
  has made and not yet committed. \<^verbatim>\<open>session.commit()\<close> publishes the view,
  \<^verbatim>\<open>session.rollback()\<close> discards it. Primary keys come from two sequences, which a
  rollback does not rewind. The session keeps one object per primary key, so a reference to
  a loaded product is its primary key.
\<close>

record db =
  products :: "Product list"
  invoices :: "Invoice list"
  invoice_items :: "InvoiceItem list"

record session =
  committed :: db
  working :: db
  invoice_id_seq :: int
  invoice_item_id_seq :: int

definition commit :: "session \<Rightarrow> session" where
  "commit s = s\<lparr>committed := working s\<rparr>"

definition rollback :: "session \<Rightarrow> session" where
  "rollback s = s\<lparr>working := committed s\<rparr>"

section \<open>Product service (\<^verbatim>\<open>services/product_service.py\<close>)\<close>

definition get_product_by_id :: "session \<Rightarrow> int \<Rightarrow> Product option" where
  "get_product_by_id s product_id = find (\<lambda>p. p_id p = product_id) (products (working s))"

section \<open>Invoice creation (\<^verbatim>\<open>services/invoice_service.py\<close>)\<close>

text \<open>An entry of \<^verbatim>\<open>validated_items\<close>; \<open>vi_product\<close> refers to the loaded product object.\<close>

record validated_item =
  vi_product :: int
  vi_quantity :: int
  vi_unit_price :: price
  vi_item_total :: price

text \<open>
  The first loop of \<^verbatim>\<open>create_invoice\<close>: every line is checked for existence of the
  product, authorization and stock, in this order, and the first failure raises. The
  accumulators are \<^verbatim>\<open>validated_items\<close> and \<^verbatim>\<open>total_price\<close>.
\<close>

fun validate_items ::
  "session \<Rightarrow> User \<Rightarrow> InvoiceItemCreate list \<Rightarrow> validated_item list \<Rightarrow> price
     \<Rightarrow> exn + (validated_item list \<times> price)" where
  "validate_items s current_user [] validated_items total_price =
     Inr (validated_items, total_price)"
| "validate_items s current_user (item_data # rest) validated_items total_price =
     (case get_product_by_id s (ic_product_id item_data) of
        None \<Rightarrow>
          Inl (HTTPException 400
                (''Product with ID '' @ str_int (ic_product_id item_data) @ '' not found''))
      | Some product \<Rightarrow>
          if u_role current_user \<noteq> ADMIN \<and> p_user_id product \<noteq> u_id current_user
          then Inl (HTTPException 403 (''Not authorized to sell product: '' @ p_name product))
          else if p_quantity product < ic_quantity item_data
          then Inl (HTTPException 400
                     (''Insufficient stock for product '' @ p_name product
                      @ ''. Available: '' @ str_int (p_quantity product)
                      @ '', Requested: '' @ str_int (ic_quantity item_data)))
          else
            let unit_price =
                  (case ic_unit_price item_data of
                     None \<Rightarrow> p_price product
                   | Some v \<Rightarrow> if v \<noteq> 0 then v else p_price product);
                item_total = unit_price * float_of_int (ic_quantity item_data)
            in validate_items s current_user rest
                 (validated_items @
                    [\<lparr>vi_product = p_id product, vi_quantity = ic_quantity item_data,
                      vi_unit_price = unit_price, vi_item_total = item_total\<rparr>])
                 (total_price + item_total))"

text \<open>
  The second loop: one \<^verbatim>\<open>InvoiceItem\<close> per validated line, and the quantity of the
  referenced product object reduced in place.
\<close>

fun write_items :: "session \<Rightarrow> int \<Rightarrow> validated_item list \<Rightarrow> session" where
  "write_items s invoice_id [] = s"
| "write_items s invoice_id (item_info # rest) =
     (let db_invoice_item =
            \<lparr>it_id = invoice_item_id_seq s, it_invoice_id = invoice_id,
             it_product_id = vi_product item_info, it_quantity = vi_quantity item_info,
             it_unit_price = vi_unit_price item_info\<rparr>;
          w = working s;
          w' = w\<lparr>invoice_items := invoice_items w @ [db_invoice_item],
                 products :=
                   map (\<lambda>p. if p_id p = vi_product item_info
                            then p\<lparr>p_quantity := p_quantity p - vi_quantity item_info\<rparr>
                            else p)
                       (products w)\<rparr>
      in write_items (s\<lparr>working := w', invoice_item_id_seq := invoice_item_id_seq s + 1\<rparr>)
           invoice_id rest)"

text \<open>
  \<open>now\<close> is the value of \<^verbatim>\<open>datetime.utcnow()\<close> that fills \<^verbatim>\<open>created_at\<close>.
  \<open>storage_ok\<close> tells whether the storage layer accepts the commit; when it does not, the
  \<^verbatim>\<open>except Exception\<close> handler rolls back and raises the 500 error.
\<close>

definition create_invoice ::
  "session \<Rightarrow> InvoiceCreate \<Rightarrow> User \<Rightarrow> datetime \<Rightarrow> bool \<Rightarrow> (exn + Invoice) \<times> session" where
  "create_invoice s invoice_data current_user now storage_ok =
     (case validate_items s current_user (items invoice_data) [] 0 of
        Inl e \<Rightarrow> (Inl e, rollback s)
      | Inr (validated_items, total_price) \<Rightarrow>
          let db_invoice =
                \<lparr>inv_id = invoice_id_seq s, inv_user_id = u_id current_user,
                 inv_customer_name = customer_name invoice_data,
                 inv_total_price = total_price, inv_created_at = now\<rparr>;
              s1 = s\<lparr>working := (working s)\<lparr>invoices := invoices (working s) @ [db_invoice]\<rparr>,
                     invoice_id_seq := invoice_id_seq s + 1\<rparr>;
              s2 = write_items s1 (inv_id db_invoice) validated_items
          in if storage_ok then (Inr db_invoice, commit s2)
             else (Inl (HTTPException 500
                         ''An unexpected error occurred while creating the invoice.''),
                   rollback s2))"

section \<open>Validation utilities (\<^verbatim>\<open>utils/validation_utils.py\<close>)\<close>

definition validate_non_negative_number :: "'a::{zero,ord} option \<Rightarrow> string \<Rightarrow> exn + unit" where
  "validate_non_negative_number v field_name =
     (case v of
        None \<Rightarrow> Inr ()
      | Some x \<Rightarrow>
          if x < 0
          then Inl (HTTPException 400 (field_name @ '' must be greater than or equal to 0''))
          else Inr ())"

definition validate_pagination_params :: "int \<Rightarrow> int \<Rightarrow> exn + unit" where
  "validate_pagination_params skip limit =
     (if skip < 0 then Inl (HTTPException 400 ''Skip parameter must be non-negative'')
      else if limit \<le> 0 \<or> limit > 1000
      then Inl (HTTPException 400 ''Limit parameter must be between 1 and 1000'')
      else Inr ())"

section \<open>Product update (\<^verbatim>\<open>utils/db_utils.py\<close>, \<^verbatim>\<open>services/product_service.py\<close>)\<close>

text \<open>
  \<^verbatim>\<open>schemas/product.py\<close>, read through \<^verbatim>\<open>dict(exclude_unset=True)\<close>: for every field,
  \<open>None\<close> is a field the request did not set, \<open>Some None\<close> a field set to \<^verbatim>\<open>None\<close>,
  \<open>Some (Some v)\<close> a field set to \<open>v\<close>.
\<close>

record ProductUpdate =
  pu_name :: "string option option"
  pu_barcode :: "string option option"
  pu_category :: "string option option"
  pu_quantity :: "int option option"
  pu_price :: "price option option"
  pu_threshold :: "int option option"
  pu_description :: "string option option"

text \<open>
  \<^verbatim>\<open>check_unique_constraint(session, Product, "barcode", ...)\<close>. The row with the id
  \<open>exclude_id\<close> is left out only when that id is truthy, that is, not zero.
\<close>

definition check_unique_constraint ::
  "session \<Rightarrow> string option \<Rightarrow> string \<Rightarrow> int option \<Rightarrow> exn + unit" where
  "check_unique_constraint s field_value error_message exclude_id =
     (case field_value of
        None \<Rightarrow> Inr ()
      | Some v \<Rightarrow>
          let rows = filter (\<lambda>p. p_barcode p = v) (products (working s));
              rows' = (case exclude_id of
                         None \<Rightarrow> rows
                       | Some e \<Rightarrow> if e \<noteq> 0 then filter (\<lambda>p. p_id p \<noteq> e) rows else rows)
          in if rows' \<noteq> [] then Inl (HTTPException 400 error_message) else Inr ())"

text \<open>The \<^verbatim>\<open>setattr\<close> loop, for update data that sets no required column to \<^verbatim>\<open>None\<close>.\<close>

definition set_fields :: "ProductUpdate \<Rightarrow> Product \<Rightarrow> Product" where
  "set_fields d p =
     p\<lparr>p_name := (case pu_name d of Some (Some v) \<Rightarrow> v | _ \<Rightarrow> p_name p),
       p_barcode := (case pu_barcode d of Some (Some v) \<Rightarrow> v | _ \<Rightarrow> p_barcode p),
       p_category := (case pu_category d of Some v \<Rightarrow> v | None \<Rightarrow> p_category p),
       p_quantity := (case pu_quantity d of Some (Some v) \<Rightarrow> v | _ \<Rightarrow> p_quantity p),
       p_price := (case pu_price d of Some (Some v) \<Rightarrow> v | _ \<Rightarrow> p_price p),
       p_threshold := (case pu_threshold d of Some (Some v) \<Rightarrow> v | _ \<Rightarrow> p_threshold p),
       p_description := (case pu_description d of Some v \<Rightarrow> v | None \<Rightarrow> p_description p)\<rparr>"

text \<open>The columns \<^verbatim>\<open>name, barcode, quantity, price, threshold\<close> are declared without
  \<^verbatim>\<open>Optional\<close>: the storage layer refuses \<^verbatim>\<open>None\<close> in them.\<close>

definition sets_required_to_None :: "ProductUpdate \<Rightarrow> bool" where
  "sets_required_to_None d =
     (pu_name d = Some None \<or> pu_barcode d = Some None \<or> pu_quantity d = Some None
      \<or> pu_price d = Some None \<or> pu_threshold d = Some None)"

text \<open>
  \<^verbatim>\<open>safe_commit\<close> after the attributes of the product object were set: the commit
  publishes the session's view and the refreshed object is returned; a refused commit rolls
  back and raises the 500 error.
\<close>

definition safe_commit_product ::
  "session \<Rightarrow> Product \<Rightarrow> ProductUpdate \<Rightarrow> bool \<Rightarrow> (exn + Product) \<times> session" where
  "safe_commit_product s product d storage_ok =
     (if sets_required_to_None d \<or> \<not> storage_ok
      then (Inl (HTTPException 500 ''Database operation failed''), rollback s)
      else
        let w = working s;
            w' = w\<lparr>products := map (\<lambda>p. if p_id p = p_id product then set_fields d p else p)
                                   (products w)\<rparr>
        in (Inr (set_fields d product), commit (s\<lparr>working := w'\<rparr>)))"

text \<open>
  An \<^verbatim>\<open>HTTPException\<close> raised inside the \<^verbatim>\<open>try\<close> block is raised again without a
  rollback; up to that point the session has not been written to.
\<close>

definition update_product ::
  "session \<Rightarrow> int \<Rightarrow> ProductUpdate \<Rightarrow> User \<Rightarrow> bool \<Rightarrow> (exn + Product) \<times> session" where
  "update_product s product_id product_data current_user storage_ok =
     (case check_resource_ownership current_user (get_product_by_id s product_id) ''product''
             (\<lambda>p. Some (p_user_id p)) of
        Inl e \<Rightarrow> (Inl e, s)
      | Inr product \<Rightarrow>
          (case (case pu_barcode product_data of
                   None \<Rightarrow> Inr ()
                 | Some b \<Rightarrow>
                     if b \<noteq> Some (p_barcode product)
                     then check_unique_constraint s b
                            ''Product with this barcode already exists'' (Some product_id)
                     else Inr ()) of
             Inl e \<Rightarrow> (Inl e, s)
           | Inr _ \<Rightarrow>
          (case (case pu_quantity product_data of
                   None \<Rightarrow> Inr ()
                 | Some v \<Rightarrow> validate_non_negative_number v ''quantity'') of
             Inl e \<Rightarrow> (Inl e, s)
           | Inr _ \<Rightarrow>
          (case (case pu_price product_data of
                   None \<Rightarrow> Inr ()
                 | Some v \<Rightarrow> validate_non_negative_number v ''price'') of
             Inl e \<Rightarrow> (Inl e, s)
           | Inr _ \<Rightarrow>
          (case (case pu_threshold product_data of
                   None \<Rightarrow> Inr ()
                 | Some v \<Rightarrow> validate_non_negative_number v ''threshold'') of
             Inl e \<Rightarrow> (Inl e, s)
           | Inr _ \<Rightarrow> safe_commit_product s product product_data storage_ok)))))"

section \<open>Invoice queries (\<^verbatim>\<open>services/invoice_service.py\<close>)\<close>

text \<open>
  \<^verbatim>\<open>ORDER BY created_at DESC\<close>, then \<^verbatim>\<open>OFFSET skip LIMIT limit\<close>. Rows with equal
  \<^verbatim>\<open>created_at\<close> keep their table order.
\<close>

definition order_by_created_at_desc :: "Invoice list \<Rightarrow> Invoice list" where
  "order_by_created_at_desc rows = sort_key (\<lambda>i. - inv_created_at i) rows"

definition paginate :: "int \<Rightarrow> int \<Rightarrow> 'a list \<Rightarrow> 'a list" where
  "paginate skip limit rows = take (nat limit) (drop (nat skip) rows)"

definition get_invoice_by_id :: "session \<Rightarrow> int \<Rightarrow> User \<Rightarrow> exn + Invoice" where
  "get_invoice_by_id s invoice_id current_user =
     check_resource_ownership current_user
       (find (\<lambda>i. inv_id i = invoice_id) (invoices (working s))) ''invoice''
       (\<lambda>i. Some (inv_user_id i))"

definition get_all_invoices :: "session \<Rightarrow> User \<Rightarrow> int \<Rightarrow> int \<Rightarrow> exn + Invoice list" where
  "get_all_invoices s current_user skip limit =
     (case validate_pagination_params skip limit of
        Inl e \<Rightarrow> Inl e
      | Inr _ \<Rightarrow>
          let rows = invoices (working s);
              rows' = (if \<not> is_owner_or_admin current_user (u_id current_user)
                       then filter (\<lambda>i. inv_user_id i = u_id current_user) rows
                       else rows)
          in Inr (paginate skip limit (order_by_created_at_desc rows')))"

definition get_invoices_by_user_id ::
  "session \<Rightarrow> int \<Rightarrow> User \<Rightarrow> int \<Rightarrow> int \<Rightarrow> exn + Invoice list" where
  "get_invoices_by_user_id s user_id current_user skip limit =
     (case check_admin_access current_user ''view other users' invoices'' of
        Inl e \<Rightarrow> Inl e
      | Inr _ \<Rightarrow>
          (case validate_pagination_params skip limit of
             Inl e \<Rightarrow> Inl e
           | Inr _ \<Rightarrow>
               Inr (paginate skip limit
                      (order_by_created_at_desc
                         (filter (\<lambda>i. inv_user_id i = user_id) (invoices (working s)))))))"

section \<open>Invoice search (\<^verbatim>\<open>utils/datetime.py\<close>, \<^verbatim>\<open>services/invoice_service.py\<close>)\<close>

text \<open>
  The filters dictionary with the keys that the service reads and the two keys
  \<^verbatim>\<open>min_price\<close>, \<^verbatim>\<open>max_price\<close> that the route stores and the service never reads; a
  key that is not in the dictionary is \<open>None\<close>. A date filter holds either a string, as the
  service documents, or a \<^verbatim>\<open>date\<close> object, as the route passes.
\<close>

datatype date_arg = DateStr string | DateObj date

text \<open>
  A \<^verbatim>\<open>datetime\<close> object that \<^verbatim>\<open>datetime.fromisoformat\<close> returns: without a UTC
  offset, or with one, and then given by its instant in UTC. Python orders two objects of
  the same kind and raises \<^verbatim>\<open>TypeError\<close> on the comparison of one with and one without
  offset.
\<close>

datatype pydatetime = Naive datetime | Aware datetime

fun datetime_greater :: "pydatetime \<Rightarrow> pydatetime \<Rightarrow> exn + bool" where
  "datetime_greater (Naive a) (Naive b) = Inr (a > b)"
| "datetime_greater (Aware a) (Aware b) = Inr (a > b)"
| "datetime_greater (Naive a) (Aware b) = Inl TypeError"
| "datetime_greater (Aware a) (Naive b) = Inl TypeError"

record Filters =
  f_customer_name :: "string option"
  f_min_total :: "price option"
  f_max_total :: "price option"
  f_start_date :: "date_arg option"
  f_end_date :: "date_arg option"
  f_min_price :: "price option"
  f_max_price :: "price option"

text \<open>
  \<open>fromisoformat\<close> is \<^verbatim>\<open>datetime.fromisoformat\<close> on strings, \<open>None\<close> for its
  \<^verbatim>\<open>ValueError\<close>. Called on a \<^verbatim>\<open>date\<close> object it raises \<^verbatim>\<open>TypeError\<close>, which
  \<^verbatim>\<open>except ValueError\<close> does not catch.
\<close>

definition parse_date_string ::
  "(string \<Rightarrow> pydatetime option) \<Rightarrow> date_arg option \<Rightarrow> string \<Rightarrow> exn + pydatetime option" where
  "parse_date_string fromisoformat date_string field_name =
     (case date_string of
        None \<Rightarrow> Inr None
      | Some (DateObj d) \<Rightarrow> Inl TypeError
      | Some (DateStr str) \<Rightarrow>
          if str = [] then Inr None
          else (case fromisoformat str of
                  Some dt \<Rightarrow> Inr (Some dt)
                | None \<Rightarrow>
                    Inl (HTTPException 400
                          (''Invalid '' @ field_name
                           @ '' format. Use ISO format (YYYY-MM-DDTHH:MM:SS)''))))"

definition get_date_range_filter ::
  "(string \<Rightarrow> pydatetime option) \<Rightarrow> date_arg option \<Rightarrow> date_arg option
     \<Rightarrow> exn + (pydatetime option \<times> pydatetime option)" where
  "get_date_range_filter fromisoformat start_date end_date =
     (case parse_date_string fromisoformat start_date ''start_date'' of
        Inl e \<Rightarrow> Inl e
      | Inr start_dt \<Rightarrow>
          (case parse_date_string fromisoformat end_date ''end_date'' of
             Inl e \<Rightarrow> Inl e
           | Inr end_dt \<Rightarrow>
               (case (start_dt, end_dt) of
                  (Some a, Some b) \<Rightarrow>
                    (case datetime_greater a b of
                       Inl e \<Rightarrow> Inl e
                     | Inr later \<Rightarrow>
                         if later
                         then Inl (HTTPException 400 ''Start date must be before end date'')
                         else Inr (start_dt, end_dt))
                | _ \<Rightarrow> Inr (start_dt, end_dt))))"

text \<open>
  The comparison of the \<^verbatim>\<open>created_at\<close> column, a timestamp without time zone, with a
  bound: the storage engine reads a bound with UTC offset as \<open>local_time\<close> of its instant,
  the time of day in the time zone of the database session.
\<close>

definition column_bound :: "(datetime \<Rightarrow> datetime) \<Rightarrow> pydatetime \<Rightarrow> datetime" where
  "column_bound local_time bound =
     (case bound of Naive d \<Rightarrow> d | Aware d \<Rightarrow> local_time d)"

text \<open>
  \<open>ilike v pat\<close> is the storage engine's \<^verbatim>\<open>v ILIKE pat\<close>; a row whose
  \<^verbatim>\<open>customer_name\<close> is NULL does not match. The bounds on \<^verbatim>\<open>total_price\<close> are
  compared by the storage engine. The date range is parsed and checked after the
  statement has been built and before it is executed.
\<close>

definition search_invoices ::
  "(string \<Rightarrow> string \<Rightarrow> bool) \<Rightarrow> (datetime \<Rightarrow> datetime) \<Rightarrow> (string \<Rightarrow> pydatetime option)
     \<Rightarrow> session \<Rightarrow> Filters \<Rightarrow> User \<Rightarrow> int \<Rightarrow> int \<Rightarrow> exn + Invoice list" where
  "search_invoices ilike local_time fromisoformat s filters current_user skip limit =
     (case validate_pagination_params skip limit of
        Inl e \<Rightarrow> Inl e
      | Inr _ \<Rightarrow>
          let rows = invoices (working s);
              rows1 = (if \<not> is_owner_or_admin current_user (u_id current_user)
                       then filter (\<lambda>i. inv_user_id i = u_id current_user) rows
                       else rows);
              rows2 = (case f_customer_name filters of
                         None \<Rightarrow> rows1
                       | Some n \<Rightarrow>
                           if n \<noteq> []
                           then filter (\<lambda>i. case inv_customer_name i of
                                               None \<Rightarrow> False
                                             | Some c \<Rightarrow> ilike c (''%'' @ n @ ''%'')) rows1
                           else rows1);
              rows3 = (case f_min_total filters of
                         None \<Rightarrow> rows2
                       | Some m \<Rightarrow> filter (\<lambda>i. storage_less_eq m (inv_total_price i)) rows2);
              rows4 = (case f_max_total filters of
                         None \<Rightarrow> rows3
                       | Some m \<Rightarrow> filter (\<lambda>i. storage_less_eq (inv_total_price i) m) rows3)
          in (case get_date_range_filter fromisoformat (f_start_date filters) (f_end_date filters) of
                Inl e \<Rightarrow> Inl e
              | Inr (start_dt, end_dt) \<Rightarrow>
                  let rows5 = (case start_dt of
                                 None \<Rightarrow> rows4
                               | Some d \<Rightarrow>
                                   filter (\<lambda>i. inv_created_at i \<ge> column_bound local_time d)
                                     rows4);
                      rows6 = (case end_dt of
                                 None \<Rightarrow> rows5
                               | Some d \<Rightarrow>
                                   filter (\<lambda>i. inv_created_at i \<le> column_bound local_time d)
                                     rows5)
                  in Inr (paginate skip limit (order_by_created_at_desc rows6))))"

section \<open>The search route (\<^verbatim>\<open>routes/invoice.py\<close>)\<close>



section \<open>Notions used to state the properties\<close>

text \<open>
  The outcome of the three checks on one invoice line, read in the session's view: the
  product is absent, the actor is neither its owner nor an admin, or the requested quantity
  exceeds the stock; \<open>None\<close> when the line passes all three.
\<close>

definition validation_error :: "session \<Rightarrow> User \<Rightarrow> InvoiceItemCreate \<Rightarrow> exn option" where
  "validation_error s actor l =
     (case get_product_by_id s (ic_product_id l) of
        None \<Rightarrow>
          Some (HTTPException 400
                 (''Product with ID '' @ str_int (ic_product_id l) @ '' not found''))
      | Some p \<Rightarrow>
          if \<not> is_owner_or_admin actor (p_user_id p)
          then Some (HTTPException 403 (''Not authorized to sell product: '' @ p_name p))
          else if p_quantity p < ic_quantity l
          then Some (HTTPException 400
                      (''Insufficient stock for product '' @ p_name p
                       @ ''. Available: '' @ str_int (p_quantity p)
                       @ '', Requested: '' @ str_int (ic_quantity l)))
          else None)"

text \<open>
  The effective unit price of a line on a product: the caller's unit price when it is
  present and not zero, the product's price otherwise.
\<close>

definition effective_unit_price :: "Product \<Rightarrow> InvoiceItemCreate \<Rightarrow> price" where
  "effective_unit_price p l =
     (case ic_unit_price l of
        Some v \<Rightarrow> if v \<noteq> 0 then v else p_price p
      | None \<Rightarrow> p_price p)"

text \<open>
  The effective unit price of a line, on the product that the line refers to in the
  session's view (0 for a line whose product is absent; no such line reaches an invoice).
\<close>

definition line_unit_price :: "session \<Rightarrow> InvoiceItemCreate \<Rightarrow> price" where
  "line_unit_price s l =
     (case get_product_by_id s (ic_product_id l) of
        None \<Rightarrow> 0
      | Some p \<Rightarrow> effective_unit_price p l)"

text \<open>The quantity that the lines of a request sell of the product with a given id.\<close>

definition quantity_sold :: "InvoiceItemCreate list \<Rightarrow> int \<Rightarrow> int" where
  "quantity_sold ls product_id =
     sum_list (map ic_quantity (filter (\<lambda>l. ic_product_id l = product_id) ls))"

section \<open>Auxiliary notions for the proofs\<close>

text \<open>The entry of \<^verbatim>\<open>validated_items\<close> that a line passing validation produces.\<close>

definition validated_of :: "session \<Rightarrow> InvoiceItemCreate \<Rightarrow> validated_item" where
  "validated_of s l =
     \<lparr>vi_product = ic_product_id l, vi_quantity = ic_quantity l,
      vi_unit_price = line_unit_price s l,
      vi_item_total = line_unit_price s l * float_of_int (ic_quantity l)\<rparr>"

text \<open>The rows that the second loop adds, numbered from the item sequence.\<close>

definition item_row :: "int \<Rightarrow> int \<Rightarrow> validated_item \<Rightarrow> InvoiceItem" where
  "item_row invoice_id n v =
     \<lparr>it_id = n, it_invoice_id = invoice_id, it_product_id = vi_product v,
      it_quantity = vi_quantity v, it_unit_price = vi_unit_price v\<rparr>"

fun item_rows :: "int \<Rightarrow> int \<Rightarrow> validated_item list \<Rightarrow> InvoiceItem list" where
  "item_rows invoice_id n [] = []"
| "item_rows invoice_id n (v # vs) = item_row invoice_id n v # item_rows invoice_id (n + 1) vs"

text \<open>The stock that the second loop takes from a product row.\<close>

definition sold :: "validated_item list \<Rightarrow> int \<Rightarrow> int" where
  "sold vs product_id = sum_list (map vi_quantity (filter (\<lambda>v. vi_product v = product_id) vs))"

definition deduct :: "validated_item list \<Rightarrow> Product \<Rightarrow> Product" where
  "deduct vs p = p\<lparr>p_quantity := p_quantity p - sold vs (p_id p)\<rparr>"

section \<open>A small shop\<close>

text \<open>
  Concrete data on which the properties are evaluated: a seller who owns one product (ten
  pens at 5.00), another user, an admin, and a session without pending changes.
\<close>

definition seller :: User where
  "seller = \<lparr>u_id = 1, u_username = ''seller'', u_role = USER\<rparr>"

definition rival :: User where
  "rival = \<lparr>u_id = 2, u_username = ''rival'', u_role = USER\<rparr>"

definition manager :: User where
  "manager = \<lparr>u_id = 3, u_username = ''manager'', u_role = ADMIN\<rparr>"

definition pen :: Product where
  "pen = \<lparr>p_id = 1, p_user_id = 1, p_name = ''pen'', p_barcode = ''0001'', p_category = None,
          p_quantity = 10, p_price = Finite 5, p_threshold = 0, p_description = None,
          p_created_at = 0\<rparr>"

definition shop :: session where
  "shop = \<lparr>committed = \<lparr>products = [pen], invoices = [], invoice_items = []\<rparr>,
           working = \<lparr>products = [pen], invoices = [], invoice_items = []\<rparr>,
           invoice_id_seq = 1, invoice_item_id_seq = 1\<rparr>"

definition line :: "int \<Rightarrow> int \<Rightarrow> price option \<Rightarrow> InvoiceItemCreate" where
  "line product_id quantity unit_price =
     \<lparr>ic_product_id = product_id, ic_quantity = quantity, ic_unit_price = unit_price\<rparr>"

definition request :: "InvoiceItemCreate list \<Rightarrow> InvoiceCreate" where
  "request ls = \<lparr>customer_name = None, items = ls\<rparr>"

text \<open>The same shop with two pens left.\<close>

definition low_shop :: session where
  "low_shop =
     \<lparr>committed = \<lparr>products = [pen\<lparr>p_quantity := 2\<rparr>], invoices = [], invoice_items = []\<rparr>,
      working = \<lparr>products = [pen\<lparr>p_quantity := 2\<rparr>], invoices = [], invoice_items = []\<rparr>,
      invoice_id_seq = 1, invoice_item_id_seq = 1\<rparr>"

text \<open>
  The shop after the seller has sold three pens at a given unit price: the total that the
  first loop accumulates for the one line, the invoice, its item, and the session that
  holds them.
\<close>

definition sale_total :: "price \<Rightarrow> price" where
  "sale_total unit_price = 0 + unit_price * float_of_int 3"

definition receipt :: "price \<Rightarrow> Invoice" where
  "receipt amount =
     \<lparr>inv_id = 1, inv_user_id = 1, inv_customer_name = None, inv_total_price = amount,
      inv_created_at = 0\<rparr>"

definition sold_item :: "price \<Rightarrow> InvoiceItem" where
  "sold_item unit_price =
     \<lparr>it_id = 1, it_invoice_id = 1, it_product_id = 1, it_quantity = 3,
      it_unit_price = unit_price\<rparr>"

definition shop_after_sale :: "price \<Rightarrow> session" where
  "shop_after_sale unit_price =
     \<lparr>committed = \<lparr>products = [pen\<lparr>p_quantity := 7\<rparr>],
                   invoices = [receipt (sale_total unit_price)],
                   invoice_items = [sold_item unit_price]\<rparr>,
      working = \<lparr>products = [pen\<lparr>p_quantity := 7\<rparr>],
                 invoices = [receipt (sale_total unit_price)],
                 invoice_items = [sold_item unit_price]\<rparr>,
      invoice_id_seq = 2, invoice_item_id_seq = 2\<rparr>"

text \<open>A product update that sets the price and nothing else.\<close>

definition new_price :: "price \<Rightarrow> ProductUpdate" where
  "new_price v =
     \<lparr>pu_name = None, pu_barcode = None, pu_category = None, pu_quantity = None,
      pu_price = Some (Some v), pu_threshold = None, pu_description = None\<rparr>"

text \<open>An empty filters dictionary.\<close>

definition no_filters :: Filters where
  "no_filters =
     \<lparr>f_customer_name = None, f_min_total = None, f_max_total = None, f_start_date = None,
      f_end_date = None, f_min_price = None, f_max_price = None\<rparr>"

section \<open>Lemmas about the two loops\<close>

text \<open>
  The first loop passes a line exactly when \<open>validation_error\<close> is \<open>None\<close> for it, and an
  invoice is created exactly when every line passes and the storage layer accepts the
  commit (\<open>create_invoice_succeeds_iff\<close>).
\<close>

lemmas scenario_defs = seller_def rival_def manager_def pen_def shop_def line_def request_def

lemmas sale_defs = receipt_def sold_item_def shop_after_sale_def new_price_def

lemmas eval_defs = get_product_by_id_def validation_error_def is_owner_or_admin_def
  str_int_def str_nat.simps digit_char_def rollback_def commit_def

lemma get_product_by_id_id: "get_product_by_id s i = Some p \<Longrightarrow> p_id p = i"
  by (auto simp: get_product_by_id_def find_Some_iff)

lemma validate_items_step_error:
  "validation_error s u x = Some e \<Longrightarrow> validate_items s u (x # xs) acc tot = Inl e"
  by (auto simp: validation_error_def is_owner_or_admin_def split: option.splits if_splits)

lemma validate_items_step_pass:
  "validation_error s u x = None \<Longrightarrow>
   validate_items s u (x # xs) acc tot =
     validate_items s u xs (acc @ [validated_of s x])
       (tot + line_unit_price s x * float_of_int (ic_quantity x))"
  by (auto simp: validation_error_def is_owner_or_admin_def Let_def validated_of_def
        line_unit_price_def effective_unit_price_def get_product_by_id_id
      split: option.splits if_splits)

lemma validate_items_fail:
  "list_all (\<lambda>x. validation_error s u x = None) pre \<Longrightarrow> validation_error s u l = Some e \<Longrightarrow>
   validate_items s u (pre @ l # post) acc tot = Inl e"
proof (induction pre arbitrary: acc tot)
  case Nil
  then show ?case by (simp add: validate_items_step_error del: validate_items.simps)
next
  case (Cons x pre)
  then show ?case by (simp add: validate_items_step_pass del: validate_items.simps)
qed

lemma validate_items_ok:
  "list_all (\<lambda>x. validation_error s u x = None) xs \<Longrightarrow>
   validate_items s u xs acc tot =
     Inr (acc @ map (validated_of s) xs,
          foldl (\<lambda>t l. t + line_unit_price s l * float_of_int (ic_quantity l)) tot xs)"
proof (induction xs arbitrary: acc tot)
  case Nil
  then show ?case by simp
next
  case (Cons x xs)
  then show ?case by (simp add: validate_items_step_pass del: validate_items.simps(2))
qed

lemma validate_items_Inr_all:
  "validate_items s u xs acc tot = Inr r \<Longrightarrow> list_all (\<lambda>x. validation_error s u x = None) xs"
proof (induction xs arbitrary: acc tot)
  case Nil
  then show ?case by simp
next
  case (Cons x xs)
  show ?case
  proof (cases "validation_error s u x")
    case None
    with Cons show ?thesis by (simp add: validate_items_step_pass del: validate_items.simps(2))
  next
    case (Some e)
    with Cons.prems show ?thesis by (simp add: validate_items_step_error del: validate_items.simps(2))
  qed
qed

lemma deduct_Nil: "deduct [] p = p"
  by (simp add: deduct_def sold_def)

lemma deduct_Cons:
  "deduct vs (if p_id p = vi_product v then p\<lparr>p_quantity := p_quantity p - vi_quantity v\<rparr> else p)
     = deduct (v # vs) p"
  by (simp add: deduct_def sold_def)

lemma write_items_working:
  "working (write_items s iid vs) =
     (working s)\<lparr>invoice_items := invoice_items (working s) @ item_rows iid (invoice_item_id_seq s) vs,
                 products := map (deduct vs) (products (working s))\<rparr>"
proof (induction vs arbitrary: s)
  case Nil
  then show ?case by (simp add: deduct_Nil)
next
  case (Cons v vs)
  show ?case
    by (simp add: Cons.IH Let_def item_row_def deduct_Cons comp_def)
qed

lemma write_items_frame:
  "committed (write_items s iid vs) = committed s \<and>
   invoice_id_seq (write_items s iid vs) = invoice_id_seq s \<and>
   invoice_item_id_seq (write_items s iid vs) = invoice_item_id_seq s + int (length vs)"
  by (induction vs arbitrary: s) (simp_all add: Let_def)

lemma item_rows_length: "length (item_rows iid n vs) = length vs"
  by (induction vs arbitrary: n) simp_all

lemma item_rows_nth: "k < length vs \<Longrightarrow> item_rows iid n vs ! k = item_row iid (n + int k) (vs ! k)"
proof (induction vs arbitrary: n k)
  case Nil
  then show ?case by simp
next
  case (Cons v vs)
  then show ?case by (cases k) (simp_all add: algebra_simps)
qed

lemma sold_validated: "sold (map (validated_of s) ls) i = quantity_sold ls i"
  by (induction ls) (simp_all add: sold_def quantity_sold_def validated_of_def)

lemma create_invoice_Inr:
  assumes "create_invoice s req actor now storage_ok = (Inr invoice, s')"
  shows "list_all (\<lambda>x. validation_error s actor x = None) (items req)"
    and "invoice = \<lparr>inv_id = invoice_id_seq s, inv_user_id = u_id actor,
                 inv_customer_name = customer_name req,
                 inv_total_price =
                   foldl (\<lambda>t l. t + line_unit_price s l * float_of_int (ic_quantity l)) 0
                     (items req),
                 inv_created_at = now\<rparr>"
    and "working s' = (working s)\<lparr>invoices := invoices (working s) @ [invoice],
            invoice_items := invoice_items (working s)
               @ item_rows (inv_id invoice) (invoice_item_id_seq s) (map (validated_of s) (items req)),
            products := map (deduct (map (validated_of s) (items req))) (products (working s))\<rparr>"
    and "committed s' = working s'"
    and "storage_ok"
proof -
  obtain r where r: "validate_items s actor (items req) [] 0 = Inr r"
    using assms by (auto simp: create_invoice_def split: sum.splits)
  then show pass: "list_all (\<lambda>x. validation_error s actor x = None) (items req)"
    by (rule validate_items_Inr_all)
  note v = validate_items_ok [OF pass, of "[]" 0]
  from assms show "storage_ok"
    by (auto simp: create_invoice_def v Let_def split: if_splits)
  from assms show invoice: "invoice = \<lparr>inv_id = invoice_id_seq s, inv_user_id = u_id actor,
                 inv_customer_name = customer_name req,
                 inv_total_price =
                   foldl (\<lambda>t l. t + line_unit_price s l * float_of_int (ic_quantity l)) 0
                     (items req),
                 inv_created_at = now\<rparr>"
    by (auto simp: create_invoice_def v Let_def split: if_splits)
  from assms have s': "s' = commit (write_items
          (s\<lparr>working := (working s)\<lparr>invoices := invoices (working s) @ [invoice]\<rparr>,
             invoice_id_seq := invoice_id_seq s + 1\<rparr>) (inv_id invoice) (map (validated_of s) (items req)))"
    by (auto simp: create_invoice_def v Let_def split: if_splits)
  show "committed s' = working s'" by (simp add: s' commit_def)
  show "working s' = (working s)\<lparr>invoices := invoices (working s) @ [invoice],
            invoice_items := invoice_items (working s)
               @ item_rows (inv_id invoice) (invoice_item_id_seq s) (map (validated_of s) (items req)),
            products := map (deduct (map (validated_of s) (items req))) (products (working s))\<rparr>"
    by (simp add: s' commit_def write_items_working)
qed

lemma create_invoice_succeeds_iff:
  "(\<exists>invoice s'. create_invoice s req actor now storage_ok = (Inr invoice, s'))
     \<longleftrightarrow> (list_all (\<lambda>x. validation_error s actor x = None) (items req) \<and> storage_ok)"
proof
  assume "\<exists>invoice s'. create_invoice s req actor now storage_ok = (Inr invoice, s')"
  then obtain invoice s' where "create_invoice s req actor now storage_ok = (Inr invoice, s')"
    by blast
  from create_invoice_Inr(1) [OF this] create_invoice_Inr(5) [OF this]
  show "list_all (\<lambda>x. validation_error s actor x = None) (items req) \<and> storage_ok"
    by simp
next
  assume "list_all (\<lambda>x. validation_error s actor x = None) (items req) \<and> storage_ok"
  then show "\<exists>invoice s'. create_invoice s req actor now storage_ok = (Inr invoice, s')"
    by (simp add: create_invoice_def validate_items_ok Let_def)
qed

lemma create_invoice_clean:
  "working (snd (create_invoice s req actor now storage_ok))
     = committed (snd (create_invoice s req actor now storage_ok))"
  by (auto simp: create_invoice_def Let_def commit_def rollback_def split: sum.splits prod.splits)

lemma safe_commit_product_items:
  assumes "working s = committed s"
  shows "invoice_items (committed (snd (safe_commit_product s p d ok))) = invoice_items (committed s)
       \<and> invoice_items (working (snd (safe_commit_product s p d ok))) = invoice_items (committed s)"
  using assms by (simp add: safe_commit_product_def Let_def commit_def rollback_def)

lemma update_product_cases:
  "snd (update_product s pid d a ok) = s
   \<or> (\<exists>p. snd (update_product s pid d a ok) = snd (safe_commit_product s p d ok))"
  unfolding update_product_def
  by (auto split: sum.split option.split)

lemma update_product_items:
  assumes "working s = committed s"
  shows "invoice_items (committed (snd (update_product s pid d a ok))) = invoice_items (committed s)
       \<and> invoice_items (working (snd (update_product s pid d a ok))) = invoice_items (committed s)"
  using update_product_cases [of s pid d a ok] safe_commit_product_items [OF assms] assms
  by auto

lemma first_failure:
  "\<exists>x\<in>set xs. P x \<Longrightarrow>
   \<exists>pre l post. xs = pre @ l # post \<and> P l \<and> list_all (\<lambda>x. \<not> P x) pre \<and> find P xs = Some l"
proof (induction xs)
  case Nil
  then show ?case by simp
next
  case (Cons x xs)
  show ?case
  proof (cases "P x")
    case True
    then have "x # xs = [] @ x # xs \<and> P x \<and> list_all (\<lambda>x. \<not> P x) [] \<and> find P (x # xs) = Some x"
      by simp
    then show ?thesis by blast
  next
    case False
    with Cons.prems have "\<exists>x\<in>set xs. P x" by simp
    from Cons.IH [OF this] obtain pre l post
      where "xs = pre @ l # post" "P l" "list_all (\<lambda>x. \<not> P x) pre" "find P xs = Some l"
      by blast
    with False have "x # xs = (x # pre) @ l # post \<and> P l \<and> list_all (\<lambda>x. \<not> P x) (x # pre)
        \<and> find P (x # xs) = Some l"
      by simp
    then show ?thesis by blast
  qed
qed

lemma deduct_validated:
  "deduct (map (validated_of s) ls) p = p\<lparr>p_quantity := p_quantity p - quantity_sold ls (p_id p)\<rparr>"
  by (simp add: deduct_def sold_validated)

lemma validate_pagination_params_bad:
  "skip < 0 \<or> limit < 1 \<or> limit > 1000 \<Longrightarrow>
   validate_pagination_params skip limit =
     Inl (HTTPException 400
           (if skip < 0 then ''Skip parameter must be non-negative''
            else ''Limit parameter must be between 1 and 1000''))"
  by (auto simp: validate_pagination_params_def)

section \<open>The shop, evaluated\<close>

text \<open>
  Float arithmetic on the examples: \<^verbatim>\<open>0.0 + 5.0 * 3\<close> is \<^verbatim>\<open>15.0\<close> and
  \<^verbatim>\<open>0.0 + 9.99 * 3\<close> is \<^verbatim>\<open>29.97\<close>, while \<^verbatim>\<open>0.0 + 0.1 * 3\<close> is the double
  \<^verbatim>\<open>0.30000000000000004\<close> and not the double \<^verbatim>\<open>0.3\<close>.
\<close>

lemma float_examples:
  "sale_total (Finite 5) = Finite 15"
  "sale_total (dbl (999 / 100)) = dbl (2997 / 100)"
  "dbl (999 / 100) \<noteq> 0"
  "sale_total (dbl (1 / 10)) = Finite (5404319552844596 / 18014398509481984)"
  "sale_total (dbl (1 / 10)) \<noteq> dbl (3 / 10)"
  by code_simp+

lemma sale_eval_total:
  "create_invoice shop (request [line 1 3 None]) seller 0 True
     = (Inr (receipt (sale_total (Finite 5))), shop_after_sale (Finite 5))"
  "create_invoice shop (request [line 1 3 (Some 0)]) seller 0 True
     = (Inr (receipt (sale_total (Finite 5))), shop_after_sale (Finite 5))"
  "create_invoice shop (request [line 1 3 (Some (dbl (999 / 100)))]) seller 0 True
     = (Inr (receipt (sale_total (dbl (999 / 100)))), shop_after_sale (dbl (999 / 100)))"
  by (simp_all add: create_invoice_def scenario_defs sale_defs sale_total_def eval_defs Let_def
      float_examples(3))

lemma sale_eval:
  "create_invoice shop (request [line 1 3 None]) seller 0 True = (Inr (receipt (Finite 15)), shop_after_sale (Finite 5))"
  "create_invoice shop (request [line 1 3 (Some 0)]) seller 0 True = (Inr (receipt (Finite 15)), shop_after_sale (Finite 5))"
  "create_invoice shop (request [line 1 3 (Some (dbl (999 / 100)))]) seller 0 True
     = (Inr (receipt (dbl (2997 / 100))), shop_after_sale (dbl (999 / 100)))"
  by (simp_all only: sale_eval_total float_examples(1,2))

section \<open>Properties of invoice creation\<close>

text \<open>
  Claim C1. When some line of the request fails validation (its product is absent, the
  actor is neither owner nor admin, or the requested quantity exceeds the stock),
  \<^verbatim>\<open>create_invoice\<close> raises the error of the first such line and nothing changes: the
  committed tables are the ones before the call, so no product quantity is modified and no
  invoice or invoice item row is persisted; the session holds no pending change and the
  two id sequences are untouched.
\<close>

theorem create_invoice_validation_failure_atomic:
  assumes "\<exists>l\<in>set (items req). validation_error s actor l \<noteq> None"
  shows "\<exists>l e s'. find (\<lambda>l. validation_error s actor l \<noteq> None) (items req) = Some l
          \<and> validation_error s actor l = Some e
          \<and> create_invoice s req actor now storage_ok = (Inl e, s')
          \<and> committed s' = committed s \<and> working s' = committed s
          \<and> invoice_id_seq s' = invoice_id_seq s
          \<and> invoice_item_id_seq s' = invoice_item_id_seq s"
proof -
  from first_failure [OF assms] obtain pre l post where split: "items req = pre @ l # post"
    and bad: "validation_error s actor l \<noteq> None"
    and pre: "list_all (\<lambda>x. \<not> validation_error s actor x \<noteq> None) pre"
    and first: "find (\<lambda>l. validation_error s actor l \<noteq> None) (items req) = Some l"
    by blast
  from bad obtain e where e: "validation_error s actor l = Some e" by auto
  from pre have "list_all (\<lambda>x. validation_error s actor x = None) pre"
    by simp
  then have "validate_items s actor (items req) [] 0 = Inl e"
    unfolding split using e by (rule validate_items_fail)
  then have "create_invoice s req actor now storage_ok = (Inl e, rollback s)"
    by (simp add: create_invoice_def)
  with first e show ?thesis by (simp add: rollback_def)
qed

text \<open>
  The seller asks for three pens and for one unit of a product 7 that does not exist: the
  second line fails, and the shop is left as it was.
\<close>

theorem create_invoice_validation_failure_atomic_witness:
  "(\<exists>l\<in>set (items (request [line 1 3 None, line 7 1 None])). validation_error shop seller l \<noteq> None)
   \<and> (\<exists>l e s'. find (\<lambda>l. validation_error shop seller l \<noteq> None)
                   (items (request [line 1 3 None, line 7 1 None])) = Some l
          \<and> validation_error shop seller l = Some e
          \<and> create_invoice shop (request [line 1 3 None, line 7 1 None]) seller 0 True = (Inl e, s')
          \<and> committed s' = committed shop \<and> working s' = committed shop
          \<and> invoice_id_seq s' = invoice_id_seq shop
          \<and> invoice_item_id_seq s' = invoice_item_id_seq shop)
   \<and> create_invoice shop (request [line 1 3 None, line 7 1 None]) seller 0 True
       = (Inl (HTTPException 400 ''Product with ID 7 not found''), shop)"
proof -
  have h: "\<exists>l\<in>set (items (request [line 1 3 None, line 7 1 None])). validation_error shop seller l \<noteq> None"
    by (simp add: scenario_defs eval_defs)
  have e: "create_invoice shop (request [line 1 3 None, line 7 1 None]) seller 0 True
       = (Inl (HTTPException 400 ''Product with ID 7 not found''), shop)"
    by (simp add: create_invoice_def scenario_defs eval_defs)
  from h create_invoice_validation_failure_atomic [OF h] e show ?thesis by blast
qed

text \<open>
  Claim C5, as amended. When every earlier line passes validation and a line refers to a
  product that exists, that the actor owns or may sell as admin, and whose quantity is
  strictly less than the requested quantity, \<^verbatim>\<open>create_invoice\<close> fails with the 400 error
  for insufficient stock; its detail names the product and gives the available and the
  requested count. The committed tables, and with them the product's quantity, are
  unchanged, no invoice row exists, and the session holds no pending change.
\<close>

theorem create_invoice_insufficient_stock:
  assumes "items req = pre @ l # post"
    and "list_all (\<lambda>x. validation_error s actor x = None) pre"
    and "get_product_by_id s (ic_product_id l) = Some p"
    and "is_owner_or_admin actor (p_user_id p)"
    and "p_quantity p < ic_quantity l"
  shows "\<exists>s'. create_invoice s req actor now storage_ok =
           (Inl (HTTPException 400
                  (''Insufficient stock for product '' @ p_name p
                   @ ''. Available: '' @ str_int (p_quantity p)
                   @ '', Requested: '' @ str_int (ic_quantity l))), s')
         \<and> committed s' = committed s \<and> working s' = committed s
         \<and> invoice_id_seq s' = invoice_id_seq s
         \<and> invoice_item_id_seq s' = invoice_item_id_seq s"
proof -
  let ?e = "HTTPException 400
                  (''Insufficient stock for product '' @ p_name p
                   @ ''. Available: '' @ str_int (p_quantity p)
                   @ '', Requested: '' @ str_int (ic_quantity l))"
  from assms(3-5) have "validation_error s actor l = Some ?e"
    by (simp add: validation_error_def)
  with assms(2) have "validate_items s actor (items req) [] 0 = Inl ?e"
    unfolding assms(1) by (rule validate_items_fail)
  then have "create_invoice s req actor now storage_ok = (Inl ?e, rollback s)"
    by (simp add: create_invoice_def)
  then show ?thesis by (simp add: rollback_def)
qed

text \<open>
  Two pens are left and the seller asks for three: the error reports 2 available and 3
  requested, and the shop is left as it was.
\<close>

theorem create_invoice_insufficient_stock_witness:
  "items (request [line 1 3 None]) = [] @ line 1 3 None # []
   \<and> list_all (\<lambda>x. validation_error low_shop seller x = None) []
   \<and> get_product_by_id low_shop (ic_product_id (line 1 3 None)) = Some (pen\<lparr>p_quantity := 2\<rparr>)
   \<and> is_owner_or_admin seller (p_user_id (pen\<lparr>p_quantity := 2\<rparr>))
   \<and> p_quantity (pen\<lparr>p_quantity := 2\<rparr>) < ic_quantity (line 1 3 None)
   \<and> create_invoice low_shop (request [line 1 3 None]) seller 0 True =
        (Inl (HTTPException 400
               ''Insufficient stock for product pen. Available: 2, Requested: 3''), low_shop)"
proof -
  have h1: "items (request [line 1 3 None]) = [] @ line 1 3 None # []"
    by (simp add: scenario_defs)
  have h2: "list_all (\<lambda>x. validation_error low_shop seller x = None) []" by simp
  have h3: "get_product_by_id low_shop (ic_product_id (line 1 3 None)) = Some (pen\<lparr>p_quantity := 2\<rparr>)"
    by (simp add: scenario_defs low_shop_def eval_defs)
  have h4: "is_owner_or_admin seller (p_user_id (pen\<lparr>p_quantity := 2\<rparr>))"
    by (simp add: scenario_defs eval_defs)
  have h5: "p_quantity (pen\<lparr>p_quantity := 2\<rparr>) < ic_quantity (line 1 3 None)"
    by (simp add: scenario_defs)
  from create_invoice_insufficient_stock [OF h1 h2 h3 h4 h5, of 0 True]
  obtain s' where r: "create_invoice low_shop (request [line 1 3 None]) seller 0 True =
           (Inl (HTTPException 400
                  (''Insufficient stock for product '' @ p_name (pen\<lparr>p_quantity := 2\<rparr>)
                   @ ''. Available: '' @ str_int (p_quantity (pen\<lparr>p_quantity := 2\<rparr>))
                   @ '', Requested: '' @ str_int (ic_quantity (line 1 3 None)))), s')"
    and c: "committed s' = committed low_shop" "working s' = committed low_shop"
      "invoice_id_seq s' = invoice_id_seq low_shop"
      "invoice_item_id_seq s' = invoice_item_id_seq low_shop"
    by blast
  from c have "s' = low_shop" by (cases s') (simp add: low_shop_def)
  with r have "create_invoice low_shop (request [line 1 3 None]) seller 0 True =
        (Inl (HTTPException 400
               ''Insufficient stock for product pen. Available: 2, Requested: 3''), low_shop)"
    by (simp add: scenario_defs eval_defs)
  with h1 h2 h3 h4 h5 show ?thesis by blast
qed

text \<open>
  Claim C5 as stated fails when the line does not reach the stock check. With two pens
  left, another user who is not an admin asks for three of the seller's pens: the product's
  quantity is less than the requested quantity, and the error is the 403 of the
  authorization check that comes first.
\<close>

theorem create_invoice_forbidden_before_stock_check:
  "get_product_by_id low_shop 1 = Some (pen\<lparr>p_quantity := 2\<rparr>)
   \<and> p_quantity (pen\<lparr>p_quantity := 2\<rparr>) < 3
   \<and> create_invoice low_shop (request [line 1 3 None]) rival 0 True =
        (Inl (HTTPException 403 ''Not authorized to sell product: pen''), low_shop)"
  by (simp add: create_invoice_def scenario_defs low_shop_def eval_defs)

text \<open>
  Claim C4. In a created invoice, the row of the \<open>k\<close>-th line carries as unit price the
  caller's unit price when it is present and not zero, and the current price of the line's
  product otherwise (so also for an explicit unit price 0). The rows of the invoice are
  appended to the item table in line order, with the invoice's id and the line's product
  and quantity.
\<close>

theorem create_invoice_unit_price:
  assumes "create_invoice s req actor now storage_ok = (Inr invoice, s')"
    and "k < length (items req)"
  shows "\<exists>p. get_product_by_id s (ic_product_id (items req ! k)) = Some p
       \<and> length (invoice_items (committed s'))
           = length (invoice_items (working s)) + length (items req)
       \<and> invoice_items (committed s') ! (length (invoice_items (working s)) + k) =
           \<lparr>it_id = invoice_item_id_seq s + int k, it_invoice_id = inv_id invoice,
            it_product_id = ic_product_id (items req ! k),
            it_quantity = ic_quantity (items req ! k),
            it_unit_price =
              (case ic_unit_price (items req ! k) of
                 Some v \<Rightarrow> if v \<noteq> 0 then v else p_price p
               | None \<Rightarrow> p_price p)\<rparr>"
proof -
  note r = create_invoice_Inr [OF assms(1)]
  from r(1) assms(2) have "validation_error s actor (items req ! k) = None"
    by (simp add: list_all_length)
  then obtain p where p: "get_product_by_id s (ic_product_id (items req ! k)) = Some p"
    by (auto simp: validation_error_def split: option.splits)
  have len: "length (invoice_items (committed s'))
           = length (invoice_items (working s)) + length (items req)"
    by (simp add: r(4) r(3) item_rows_length)
  have "invoice_items (committed s') ! (length (invoice_items (working s)) + k)
          = item_row (inv_id invoice) (invoice_item_id_seq s + int k) (validated_of s (items req ! k))"
    using assms(2) by (simp add: r(4) r(3) item_rows_nth)
  with p len show ?thesis
    by (simp add: item_row_def validated_of_def line_unit_price_def effective_unit_price_def)
qed

text \<open>
  Three pens with an explicit unit price 0 are recorded at the pen's price 5.00; with an
  explicit unit price 9.99 they are recorded at 9.99.
\<close>

theorem create_invoice_unit_price_witness:
  "create_invoice shop (request [line 1 3 (Some 0)]) seller 0 True
     = (Inr (receipt (Finite 15)), shop_after_sale (Finite 5))
   \<and> 0 < length (items (request [line 1 3 (Some 0)]))
   \<and> (\<exists>p. get_product_by_id shop (ic_product_id (items (request [line 1 3 (Some 0)]) ! 0)) = Some p
       \<and> length (invoice_items (committed (shop_after_sale (Finite 5))))
           = length (invoice_items (working shop)) + length (items (request [line 1 3 (Some 0)]))
       \<and> invoice_items (committed (shop_after_sale (Finite 5))) ! (length (invoice_items (working shop)) + 0) =
           \<lparr>it_id = invoice_item_id_seq shop + int 0, it_invoice_id = inv_id (receipt (Finite 15)),
            it_product_id = ic_product_id (items (request [line 1 3 (Some 0)]) ! 0),
            it_quantity = ic_quantity (items (request [line 1 3 (Some 0)]) ! 0),
            it_unit_price =
              (case ic_unit_price (items (request [line 1 3 (Some 0)]) ! 0) of
                 Some v \<Rightarrow> if v \<noteq> 0 then v else p_price p
               | None \<Rightarrow> p_price p)\<rparr>)
   \<and> map it_unit_price (invoice_items (committed (shop_after_sale (Finite 5)))) = [p_price pen]
   \<and> map it_unit_price
        (invoice_items (committed (snd (create_invoice shop (request [line 1 3 (Some (dbl (999 / 100)))])
           seller 0 True)))) = [dbl (999 / 100)]"
proof -
  have h: "create_invoice shop (request [line 1 3 (Some 0)]) seller 0 True
             = (Inr (receipt (Finite 15)), shop_after_sale (Finite 5))"
    by (rule sale_eval)
  have k: "0 < length (items (request [line 1 3 (Some 0)]))"
    by (simp add: scenario_defs)
  have c: "map it_unit_price (invoice_items (committed (shop_after_sale (Finite 5)))) = [p_price pen]
   \<and> map it_unit_price
        (invoice_items (committed (snd (create_invoice shop (request [line 1 3 (Some (dbl (999 / 100)))])
           seller 0 True)))) = [dbl (999 / 100)]"
    by (simp only: sale_eval snd_conv) (simp add: sale_defs scenario_defs)
  from h k create_invoice_unit_price [OF h k] c show ?thesis by blast
qed

text \<open>
  Claim C6. For a created invoice, the stored total price is the sum over the lines of the
  effective unit price times the line's quantity, as the program computes it in float
  arithmetic: starting from 0.0, the float product of each line is added in line order.
  The invoice is the one new row of the invoice table, and every product row has its
  quantity reduced by exactly the quantity that the lines of the request sell of this
  product, all other columns unchanged. Every line of a created invoice refers to an
  existing product.
\<close>

theorem create_invoice_total_and_stock:
  assumes "create_invoice s req actor now storage_ok = (Inr invoice, s')"
  shows "inv_total_price invoice
           = foldl (\<lambda>t l. t + line_unit_price s l * float_of_int (ic_quantity l)) 0 (items req)
       \<and> invoices (committed s') = invoices (working s) @ [invoice]
       \<and> products (committed s')
           = map (\<lambda>p. p\<lparr>p_quantity := p_quantity p - quantity_sold (items req) (p_id p)\<rparr>)
               (products (working s))
       \<and> list_all (\<lambda>l. get_product_by_id s (ic_product_id l) \<noteq> None) (items req)"
proof -
  note r = create_invoice_Inr [OF assms]
  have "list_all (\<lambda>l. get_product_by_id s (ic_product_id l) \<noteq> None) (items req)"
    using r(1) by (auto simp: list_all_iff validation_error_def split: option.splits)
  moreover have "inv_total_price invoice
           = foldl (\<lambda>t l. t + line_unit_price s l * float_of_int (ic_quantity l)) 0 (items req)"
    by (subst r(2)) simp
  moreover have "invoices (committed s') = invoices (working s) @ [invoice]"
    by (simp add: r(4) r(3))
  moreover have "products (committed s')
           = map (\<lambda>p. p\<lparr>p_quantity := p_quantity p - quantity_sold (items req) (p_id p)\<rparr>)
               (products (working s))"
    by (simp add: r(4) r(3) deduct_validated)
  ultimately show ?thesis by blast
qed

text \<open>
  Ten pens at 5.00, three sold: the total is 15.00, seven pens remain, and the one item
  carries the unit price 5.00.
\<close>

theorem create_invoice_total_and_stock_witness:
  "create_invoice shop (request [line 1 3 None]) seller 0 True
     = (Inr (receipt (Finite 15)), shop_after_sale (Finite 5))
   \<and> inv_total_price (receipt (Finite 15))
       = foldl (\<lambda>t l. t + line_unit_price shop l * float_of_int (ic_quantity l)) 0
           (items (request [line 1 3 None]))
   \<and> invoices (committed (shop_after_sale (Finite 5))) = invoices (working shop) @ [receipt (Finite 15)]
   \<and> products (committed (shop_after_sale (Finite 5)))
       = map (\<lambda>p. p\<lparr>p_quantity := p_quantity p - quantity_sold (items (request [line 1 3 None])) (p_id p)\<rparr>)
           (products (working shop))
   \<and> list_all (\<lambda>l. get_product_by_id shop (ic_product_id l) \<noteq> None) (items (request [line 1 3 None]))
   \<and> inv_total_price (receipt (Finite 15)) = Finite 15
   \<and> map p_quantity (products (committed (shop_after_sale (Finite 5)))) = [7]
   \<and> map it_unit_price (invoice_items (committed (shop_after_sale (Finite 5)))) = [Finite 5]"
proof -
  have h: "create_invoice shop (request [line 1 3 None]) seller 0 True
             = (Inr (receipt (Finite 15)), shop_after_sale (Finite 5))"
    by (rule sale_eval)
  have c: "inv_total_price (receipt (Finite 15)) = Finite 15
     \<and> map p_quantity (products (committed (shop_after_sale (Finite 5)))) = [7]
     \<and> map it_unit_price (invoice_items (committed (shop_after_sale (Finite 5)))) = [Finite 5]"
    by (simp add: sale_defs scenario_defs)
  from h create_invoice_total_and_stock [OF h] c show ?thesis by blast
qed

text \<open>
  Claim C7. The unit price on an invoice item is a snapshot: after an invoice has been
  created, a call of \<^verbatim>\<open>update_product\<close>, whatever it updates and whether it succeeds or
  fails, leaves the table of invoice items as it is, in the committed state and in the
  session's view. No row is added, removed or changed in any column.
\<close>

theorem invoice_item_price_is_snapshot:
  assumes "create_invoice s req actor now storage_ok = (Inr invoice, s1)"
  shows "invoice_items (committed (snd (update_product s1 product_id product_data user storage_ok')))
           = invoice_items (committed s1)
       \<and> invoice_items (working (snd (update_product s1 product_id product_data user storage_ok')))
           = invoice_items (committed s1)"
proof -
  have "working s1 = committed s1"
    using create_invoice_clean [of s req actor now storage_ok] assms by simp
  then show ?thesis by (rule update_product_items)
qed

text \<open>
  Three pens are sold at an explicit 9.99 while the pen costs 5.00; then the seller sets
  the pen's price to 7.00. The product row has the new price, the invoice item still 9.99.
\<close>

theorem invoice_item_price_is_snapshot_witness:
  "create_invoice shop (request [line 1 3 (Some (dbl (999 / 100)))]) seller 0 True
     = (Inr (receipt (dbl (2997 / 100))), shop_after_sale (dbl (999 / 100)))
   \<and> (invoice_items (committed (snd (update_product (shop_after_sale (dbl (999 / 100))) 1 (new_price (Finite 7)) seller True)))
           = invoice_items (committed (shop_after_sale (dbl (999 / 100))))
       \<and> invoice_items (working (snd (update_product (shop_after_sale (dbl (999 / 100))) 1 (new_price (Finite 7)) seller True)))
           = invoice_items (committed (shop_after_sale (dbl (999 / 100)))))
   \<and> map p_price (products (committed (snd (update_product (shop_after_sale (dbl (999 / 100))) 1 (new_price (Finite 7)) seller True)))) = [Finite 7]
   \<and> map it_unit_price (invoice_items (committed (snd (update_product (shop_after_sale (dbl (999 / 100))) 1 (new_price (Finite 7)) seller True)))) = [dbl (999 / 100)]"
proof -
  have h: "create_invoice shop (request [line 1 3 (Some (dbl (999 / 100)))]) seller 0 True
     = (Inr (receipt (dbl (2997 / 100))), shop_after_sale (dbl (999 / 100)))"
    by (rule sale_eval)
  have c: "map p_price (products (committed (snd (update_product (shop_after_sale (dbl (999 / 100))) 1 (new_price (Finite 7)) seller True)))) = [Finite 7]
   \<and> map it_unit_price (invoice_items (committed (snd (update_product (shop_after_sale (dbl (999 / 100))) 1 (new_price (Finite 7)) seller True)))) = [dbl (999 / 100)]"
    by (simp add: update_product_def check_resource_ownership_def check_ownership_or_admin_def
        validate_non_negative_number_def safe_commit_product_def sets_required_to_None_def
        set_fields_def sale_defs scenario_defs eval_defs Let_def less_pyfloat_def
        zero_pyfloat_def)
  from h invoice_item_price_is_snapshot [OF h] c show ?thesis by blast
qed

section \<open>Properties of the ownership check\<close>

text \<open>
  The function in full, for any object and any way to read its owner field: between the
  existence check and the ownership check, an object whose owner field is missing or
  \<^verbatim>\<open>None\<close> is answered with the 500 error.
\<close>

lemma check_resource_ownership_cases:
  "check_resource_ownership actor resource resource_name user_id_field =
     (case resource of
        None \<Rightarrow> Inl (HTTPException 404 (capitalize resource_name @ '' not found''))
      | Some r \<Rightarrow>
          (case user_id_field r of
             None \<Rightarrow> Inl (HTTPException 500 ''Resource ownership validation failed'')
           | Some owner_id \<Rightarrow>
               if is_owner_or_admin actor owner_id then Inr r
               else Inl (HTTPException 403 (''Not authorized to access this '' @ resource_name))))"
  by (simp add: check_resource_ownership_def check_ownership_or_admin_def is_owner_or_admin_def
      split: option.split)

text \<open>
  Claim C8. For every actor and every resource of a type that has an owner user id
  \<open>owner\<close>, as products and invoices have: the ownership-checked retrieval fails with the
  404 error when the resource is absent, whoever the actor is, so the existence check comes
  first; it fails with the 403 error when the resource is present and the actor is neither
  its owner nor an admin; and otherwise it returns the resource unchanged.
\<close>

theorem check_resource_ownership_owned:
  "check_resource_ownership actor resource resource_name (\<lambda>r. Some (owner r)) =
     (case resource of
        None \<Rightarrow> Inl (HTTPException 404 (capitalize resource_name @ '' not found''))
      | Some r \<Rightarrow>
          if is_owner_or_admin actor (owner r) then Inr r
          else Inl (HTTPException 403 (''Not authorized to access this '' @ resource_name)))"
  by (simp add: check_resource_ownership_cases split: option.split)

text \<open>
  On the seller's pen: an absent product is not found, another user is refused, the seller
  and the admin get the pen back.
\<close>

theorem check_resource_ownership_owned_witness:
  "check_resource_ownership rival None ''product'' (\<lambda>p. Some (p_user_id p))
     = Inl (HTTPException 404 ''Product not found'')
   \<and> check_resource_ownership rival (Some pen) ''product'' (\<lambda>p. Some (p_user_id p))
     = Inl (HTTPException 403 ''Not authorized to access this product'')
   \<and> check_resource_ownership seller (Some pen) ''product'' (\<lambda>p. Some (p_user_id p)) = Inr pen
   \<and> check_resource_ownership manager (Some pen) ''product'' (\<lambda>p. Some (p_user_id p)) = Inr pen"
  by (simp add: check_resource_ownership_owned [where owner = p_user_id]
      is_owner_or_admin_def capitalize_def upper_char_def lower_char_def scenario_defs)

section \<open>Properties of the invoice queries\<close>

text \<open>
  Claim C3 fails on the code. The listing and the search restrict the rows only when
  \<^verbatim>\<open>is_owner_or_admin(current_user, current_user.id)\<close> is false, and it never is: a user
  is always the owner of its own id. After the seller's sale, another user who is not an
  admin lists and searches the invoices and receives the seller's invoice.
\<close>

theorem invoice_listing_ignores_owner:
  "u_role rival \<noteq> ADMIN \<and> inv_user_id (receipt (Finite 15)) \<noteq> u_id rival
   \<and> get_all_invoices (shop_after_sale (Finite 5)) rival 0 100 = Inr [receipt (Finite 15)]
   \<and> search_invoices ilike local_time fromisoformat (shop_after_sale (Finite 5)) no_filters
         rival 0 100
       = Inr [receipt (Finite 15)]"
  by (simp add: get_all_invoices_def search_invoices_def validate_pagination_params_def
      is_owner_or_admin_def get_date_range_filter_def parse_date_string_def paginate_def
      order_by_created_at_desc_def no_filters_def sale_defs scenario_defs float_examples(1))

text \<open>
  In the search service, two date strings that parse to datetimes of the same kind, the
  start later than the end, are refused with a 400 error before the statement is
  executed. The route never reaches this check: it passes \<^verbatim>\<open>date\<close> objects.
\<close>

lemma service_inverted_dates:
  assumes "str_a \<noteq> []" "str_b \<noteq> []"
    and "fromisoformat str_a = Some a" "fromisoformat str_b = Some b"
    and "datetime_greater a b = Inr True"
    and "f_start_date filters = Some (DateStr str_a)" "f_end_date filters = Some (DateStr str_b)"
  shows "\<exists>msg. \<forall>ilike local_time s.
           search_invoices ilike local_time fromisoformat s filters actor skip limit
             = Inl (HTTPException 400 msg)"
proof -
  have g: "get_date_range_filter fromisoformat (Some (DateStr str_a)) (Some (DateStr str_b))
         = Inl (HTTPException 400 ''Start date must be before end date'')"
    using assms(1-5) by (simp add: get_date_range_filter_def parse_date_string_def)
  have "\<forall>ilike local_time s.
          search_invoices ilike local_time fromisoformat s filters actor skip limit
         = (case validate_pagination_params skip limit of
              Inl e \<Rightarrow> Inl e
            | Inr _ \<Rightarrow> Inl (HTTPException 400 ''Start date must be before end date''))"
    by (simp add: search_invoices_def assms(6,7) g Let_def split: sum.split)
  moreover have "\<exists>msg. (case validate_pagination_params skip limit of
              Inl e \<Rightarrow> Inl e
            | Inr _ \<Rightarrow> Inl (HTTPException 400 ''Start date must be before end date''))
          = (Inl (HTTPException 400 msg) :: exn + Invoice list)"
    by (simp add: validate_pagination_params_def)
  ultimately show ?thesis by metis
qed



text \<open>
  Claim C10, as amended. When \<open>skip < 0\<close> or \<open>limit\<close> is outside 1 to 1000, the invoice
  listing and the invoice search fail with the 400 error of the pagination check, for every
  session, so before any query. The per-user listing does so for an admin; for any other
  actor it fails with the 403 error of the admin check, which comes first.
\<close>

theorem listing_rejects_bad_pagination:
  assumes "skip < 0 \<or> limit < 1 \<or> limit > 1000"
  shows "\<exists>msg.
           get_all_invoices s actor skip limit = Inl (HTTPException 400 msg)
         \<and> (\<forall>ilike local_time fromisoformat filters.
               search_invoices ilike local_time fromisoformat s filters actor skip limit
                 = Inl (HTTPException 400 msg))
         \<and> (\<forall>user_id.
               get_invoices_by_user_id s user_id actor skip limit
                 = (if u_role actor = ADMIN then Inl (HTTPException 400 msg)
                    else Inl (HTTPException 403
                               ''Admin access required to view other users' invoices'')))"
proof -
  note v = validate_pagination_params_bad [OF assms]
  have "get_all_invoices s actor skip limit
          = Inl (HTTPException 400
                  (if skip < 0 then ''Skip parameter must be non-negative''
                   else ''Limit parameter must be between 1 and 1000''))
         \<and> (\<forall>ilike local_time fromisoformat filters.
               search_invoices ilike local_time fromisoformat s filters actor skip limit
                 = Inl (HTTPException 400
                  (if skip < 0 then ''Skip parameter must be non-negative''
                   else ''Limit parameter must be between 1 and 1000'')))
         \<and> (\<forall>user_id.
               get_invoices_by_user_id s user_id actor skip limit
                 = (if u_role actor = ADMIN then Inl (HTTPException 400
                  (if skip < 0 then ''Skip parameter must be non-negative''
                   else ''Limit parameter must be between 1 and 1000''))
                    else Inl (HTTPException 403
                               ''Admin access required to view other users' invoices'')))"
    by (simp add: get_all_invoices_def search_invoices_def get_invoices_by_user_id_def
        check_admin_access_def v)
  then show ?thesis by blast
qed

text \<open>The admin asks for 1001 rows.\<close>

theorem listing_rejects_bad_pagination_witness:
  "((0::int) < 0 \<or> (1001::int) < 1 \<or> (1001::int) > 1000)
   \<and> (\<exists>msg.
           get_all_invoices shop manager 0 1001 = Inl (HTTPException 400 msg)
         \<and> (\<forall>ilike local_time fromisoformat filters.
               search_invoices ilike local_time fromisoformat shop filters manager 0 1001
                 = Inl (HTTPException 400 msg))
         \<and> (\<forall>user_id.
               get_invoices_by_user_id shop user_id manager 0 1001
                 = (if u_role manager = ADMIN then Inl (HTTPException 400 msg)
                    else Inl (HTTPException 403
                               ''Admin access required to view other users' invoices''))))
   \<and> get_invoices_by_user_id shop 1 manager 0 1001
       = Inl (HTTPException 400 ''Limit parameter must be between 1 and 1000'')"
proof -
  have h: "(0::int) < 0 \<or> (1001::int) < 1 \<or> (1001::int) > 1000" by simp
  have e: "get_invoices_by_user_id shop 1 manager 0 1001
       = Inl (HTTPException 400 ''Limit parameter must be between 1 and 1000'')"
    by (simp add: get_invoices_by_user_id_def check_admin_access_def
        validate_pagination_params_def scenario_defs)
  from h listing_rejects_bad_pagination [OF h] e show ?thesis by blast
qed

text \<open>
  Claim C10 as stated fails for the per-user listing: a user who is not an admin asks with
  \<open>skip = -1\<close> and receives the 403 error of the admin check, not a validation error.
\<close>

theorem per_user_listing_forbidden_before_pagination_check:
  "u_role seller \<noteq> ADMIN
   \<and> get_invoices_by_user_id shop 1 seller (- 1) 100
       = Inl (HTTPException 403 ''Admin access required to view other users' invoices'')"
  by (simp add: get_invoices_by_user_id_def check_admin_access_def scenario_defs)

end
